theory Spec2Isabelle
  imports Complex_Main "HOL-Library.Sublist"
begin

section \<open>Python values\<close>

text \<open>
  A request body is parsed JSON: Python's \<open>None\<close>, \<open>bool\<close>, \<open>int\<close>, \<open>float\<close>, \<open>str\<close>,
  \<open>list\<close> and \<open>dict\<close>. A \<open>dict\<close> is an association list read with \<open>map_of\<close>.
  A Python \<open>float\<close> is idealised as a real number: arithmetic on floats is exact, and
  the values \<open>inf\<close> and \<open>nan\<close> (a JSON number such as \<open>1e400\<close>, the string \<open>'nan'\<close>) are
  outside the model. The conversion of an \<open>int\<close> that is too large for a float does
  raise, as it does in Python.
\<close>

datatype pyval =
    PNone
  | PBool bool
  | PInt int
  | PFloat real
  | PStr string
  | PList "pyval list"
  | PDict "(string \<times> pyval) list"

text \<open>Truth value of an object, as \<open>not x\<close> and \<open>x or y\<close> read it.\<close>

fun truthy :: "pyval \<Rightarrow> bool" where
  "truthy PNone = False"
| "truthy (PBool b) = b"
| "truthy (PInt i) = (i \<noteq> 0)"
| "truthy (PFloat x) = (x \<noteq> 0)"
| "truthy (PStr s) = (s \<noteq> [])"
| "truthy (PList l) = (l \<noteq> [])"
| "truthy (PDict d) = (d \<noteq> [])"

text \<open>\<open>d.get(k)\<close>: the value stored under \<open>k\<close>, \<open>None\<close> when the key is absent.\<close>

definition dict_get :: "(string \<times> pyval) list \<Rightarrow> string \<Rightarrow> pyval" where
  "dict_get d k = (case map_of d k of None \<Rightarrow> PNone | Some v \<Rightarrow> v)"

text \<open>\<open>d.get(k, '')\<close>.\<close>

definition dict_get_default :: "(string \<times> pyval) list \<Rightarrow> string \<Rightarrow> pyval" where
  "dict_get_default d k = (case map_of d k of None \<Rightarrow> PStr [] | Some v \<Rightarrow> v)"

text \<open>The exceptions that \<open>float\<close> raises.\<close>

datatype pyexc = TypeError | ValueError | OverflowError

text \<open>
  The least magnitude of an \<open>int\<close> that \<open>float\<close> refuses: such an \<open>int\<close> rounds to
  \<open>2 ^ 1024\<close>, beyond the largest double.
\<close>

definition float_int_limit :: int where
  "float_int_limit = 2 ^ 1024 - 2 ^ 970"

text \<open>
  \<open>float(x)\<close>: the number, or the exception raised. An \<open>int\<close> at or beyond the limit
  raises \<open>OverflowError\<close>; a string that is no number raises \<open>ValueError\<close>; \<open>None\<close>, a
  list and a dict raise \<open>TypeError\<close>. What \<open>float\<close> makes of a string is the
  interpreter's business: the parser \<open>sf\<close> is a parameter, \<open>None\<close> for a string it
  rejects.
\<close>

fun py_float :: "(string \<Rightarrow> real option) \<Rightarrow> pyval \<Rightarrow> pyexc + real" where
  "py_float sf (PInt i) = (if \<bar>i\<bar> < float_int_limit then Inr (of_int i) else Inl OverflowError)"
| "py_float sf (PFloat x) = Inr x"
| "py_float sf (PBool b) = Inr (if b then 1 else 0)"
| "py_float sf (PStr s) = (case sf s of None \<Rightarrow> Inl ValueError | Some x \<Rightarrow> Inr x)"
| "py_float sf PNone = Inl TypeError"
| "py_float sf (PList l) = Inl TypeError"
| "py_float sf (PDict d) = Inl TypeError"

text \<open>
  \<open>round(x, n)\<close> on a float: the nearest multiple of \<open>10 ^ (- n)\<close>, a tie going to the
  even neighbour.
\<close>

definition round_half_even :: "real \<Rightarrow> int" where
  "round_half_even y =
     (let f = \<lfloor>y\<rfloor>; d = y - of_int f in
      if d < 1 / 2 then f
      else if 1 / 2 < d then f + 1
      else if even f then f else f + 1)"

definition py_round :: "real \<Rightarrow> nat \<Rightarrow> real" where
  "py_round x n = of_int (round_half_even (x * 10 ^ n)) / 10 ^ n"

section \<open>Responses\<close>

text \<open>
  The error responses of the two services, by the branch that produces them:
  \<^item> \<open>InvalidBody\<close>: main.py, 400, "Invalid JSON body";
  \<^item> \<open>NotANumber name\<close>: main.py, 400, "'name' must be a number";
  \<^item> \<open>InternalError\<close>: main.py, 500, "Prediction failed", the handler of line 93;
  \<^item> \<open>ModelNotLoaded\<close>: app.py, 500, "Model not loaded. Train first.";
  \<^item> \<open>MissingFields names\<close>: app.py, 400, "Missing fields: a, b";
  \<^item> \<open>NotNumbers\<close>: app.py, 400, "All fields must be numbers";
  \<^item> \<open>PredictionFailed e\<close>: app.py, 500, "Prediction failed: e";
  \<^item> \<open>Unhandled\<close>: an exception that no handler of the view catches.
\<close>

datatype failure =
    InvalidBody
  | NotANumber string
  | InternalError
  | ModelNotLoaded
  | MissingFields "string list"
  | NotNumbers
  | PredictionFailed string
  | Unhandled

fun join :: "string \<Rightarrow> string list \<Rightarrow> string" where
  "join sep [] = []"
| "join sep [x] = x"
| "join sep (x # y # ys) = x @ sep @ join sep (y # ys)"

fun message :: "failure \<Rightarrow> string" where
  "message InvalidBody = ''Invalid JSON body''"
| "message (NotANumber name) = [CHR 0x27] @ name @ [CHR 0x27] @ '' must be a number''"
| "message InternalError = ''Prediction failed''"
| "message ModelNotLoaded = ''Model not loaded. Train first.''"
| "message (MissingFields missing) = ''Missing fields: '' @ join '', '' missing"
| "message NotNumbers = ''All fields must be numbers''"
| "message (PredictionFailed e) = ''Prediction failed: '' @ e"
| "message Unhandled = ''Internal Server Error''"

fun status_code :: "failure \<Rightarrow> nat" where
  "status_code InvalidBody = 400"
| "status_code (NotANumber name) = 400"
| "status_code InternalError = 500"
| "status_code ModelNotLoaded = 500"
| "status_code (MissingFields missing) = 400"
| "status_code NotNumbers = 400"
| "status_code (PredictionFailed e) = 500"
| "status_code Unhandled = 500"

text \<open>
  The success body: \<open>risk\<close> and \<open>probability\<close>, and in main.py the echoed \<open>inputs\<close>.
\<close>

record response =
  risk :: string
  probability :: real
  inputs :: "(string \<times> real) list option"

section \<open>main.py: the rule-based service\<close>

text \<open>
  \<open>_to_float\<close>, with what the view makes of its exceptions: the \<open>ValueError\<close> it raises
  for a \<open>TypeError\<close> or \<open>ValueError\<close> of \<open>float\<close> is answered by the handler of line 91,
  the \<open>OverflowError\<close> it lets through by the handler of line 93.
\<close>

definition to_float :: "(string \<Rightarrow> real option) \<Rightarrow> pyval \<Rightarrow> string \<Rightarrow> failure + real" where
  "to_float sf x name =
     (case py_float sf x of
        Inr v \<Rightarrow> Inr v
      | Inl TypeError \<Rightarrow> Inl (NotANumber name)
      | Inl ValueError \<Rightarrow> Inl (NotANumber name)
      | Inl OverflowError \<Rightarrow> Inl InternalError)"

text \<open>Lines 20 to 54 of \<open>compute_risk\<close>: the score accumulated over the four vitals.\<close>

definition compute_score :: "real \<Rightarrow> real \<Rightarrow> real \<Rightarrow> real \<Rightarrow> real" where
  "compute_score bp heart_rate sugar bmi =
     (let score = 0;
          score = score +
            (if 180 \<le> bp then 3 else if 160 \<le> bp then 2.5
             else if 140 \<le> bp then 2 else if bp \<le> 90 then 0.5 else 0);
          score = score +
            (if 120 \<le> heart_rate then 2 else if 100 \<le> heart_rate then 1.5
             else if heart_rate \<le> 50 then 1 else 0);
          score = score +
            (if 250 \<le> sugar then 3 else if 180 \<le> sugar then 2
             else if 126 \<le> sugar then 1 else 0);
          score = score +
            (if 35 \<le> bmi then 2.5 else if 30 \<le> bmi then 2
             else if bmi \<le> 18.5 then 1 else 0)
      in score)"

text \<open>Lines 56 to 69 of \<open>compute_risk\<close>: the band of a score, and the clamp.\<close>

definition risk_band :: "real \<Rightarrow> string \<times> real" where
  "risk_band score =
     (let (label, prob) =
            (if score \<le> 2.0 then (''Low'', min 0.35 (0.15 + 0.1 * score))
             else if score \<le> 4.0 then (''Medium'', min 0.7 (0.45 + 0.1 * (score - 2)))
             else (''High'', min 0.95 (0.7 + 0.05 * (score - 4))));
          prob = max 0.01 (min 0.99 prob)
      in (label, prob))"

definition compute_risk :: "real \<Rightarrow> real \<Rightarrow> real \<Rightarrow> real \<Rightarrow> string \<times> real" where
  "compute_risk bp heart_rate sugar bmi = risk_band (compute_score bp heart_rate sugar bmi)"

text \<open>The body of the response, lines 86 to 90.\<close>

definition main_response ::
  "string \<Rightarrow> real \<Rightarrow> real \<Rightarrow> real \<Rightarrow> real \<Rightarrow> real \<Rightarrow> response" where
  "main_response label prob bp heart_rate sugar bmi =
     \<lparr>risk = label, probability = py_round prob 3,
      inputs = Some [(''bp'', bp), (''heart_rate'', heart_rate),
                     (''sugar'', sugar), (''bmi'', bmi)]\<rparr>"

text \<open>
  The view \<open>predict\<close> of main.py, on the parsed body. The four conversions run in the
  order of the source, and the first that raises decides the response.
\<close>

definition main_predict :: "(string \<Rightarrow> real option) \<Rightarrow> pyval \<Rightarrow> failure + response" where
  "main_predict sf payload =
     (case payload of
        PDict d \<Rightarrow>
          (case to_float sf (dict_get d ''bp'') ''bp'' of
             Inl e \<Rightarrow> Inl e
           | Inr bp \<Rightarrow>
          (case to_float sf (dict_get d ''heart_rate'') ''heart_rate'' of
             Inl e \<Rightarrow> Inl e
           | Inr heart_rate \<Rightarrow>
          (case to_float sf (dict_get d ''sugar'') ''sugar'' of
             Inl e \<Rightarrow> Inl e
           | Inr sugar \<Rightarrow>
          (case to_float sf (dict_get d ''bmi'') ''bmi'' of
             Inl e \<Rightarrow> Inl e
           | Inr bmi \<Rightarrow>
             (let (label, prob) = compute_risk bp heart_rate sugar bmi in
              Inr (main_response label prob bp heart_rate sugar bmi))))))
      | _ \<Rightarrow> Inl InvalidBody)"

section \<open>app.py: the model-backed service\<close>

definition bucketize :: "real \<Rightarrow> string" where
  "bucketize prob =
     (if prob < 0.33 then ''Low'' else if prob < 0.66 then ''Medium'' else ''High'')"

text \<open>
  The loaded artifact, as the view uses it: \<open>float(model.predict_proba(X)[0, 1])\<close> on
  the feature row \<open>X\<close>. It yields the probability of the positive class, or raises
  (\<open>Inl\<close>, with the text of the exception). The global \<open>model\<close> is \<open>None\<close> when loading
  the file failed at startup.
\<close>

type_synonym artifact = "real list \<Rightarrow> string + real"

text \<open>
  \<open>k in data\<close> for a string \<open>k\<close>, as a function of \<open>k\<close>: a key of a dict, an element of
  a list, a substring of a string. No other value is a container: \<open>None\<close> stands for
  the \<open>TypeError\<close>, which the view does not catch.
\<close>

fun py_in :: "pyval \<Rightarrow> (string \<Rightarrow> bool) option" where
  "py_in (PDict d) = Some (\<lambda>k. map_of d k \<noteq> None)"
| "py_in (PList l) = Some (\<lambda>k. PStr k \<in> set l)"
| "py_in (PStr s) = Some (\<lambda>k. sublist k s)"
| "py_in PNone = None"
| "py_in (PBool b) = None"
| "py_in (PInt i) = None"
| "py_in (PFloat x) = None"

text \<open>
  \<open>float(data[k])\<close> inside the \<open>try\<close> of app.py, whose handler turns a \<open>TypeError\<close> or a
  \<open>ValueError\<close> into \<open>NotNumbers\<close>. Subscripting a list or a string with a string raises
  \<open>TypeError\<close>; a \<open>KeyError\<close> and the \<open>OverflowError\<close> of \<open>float\<close> are not caught.
\<close>

definition item_float :: "(string \<Rightarrow> real option) \<Rightarrow> pyval \<Rightarrow> string \<Rightarrow> failure + real" where
  "item_float sf data k =
     (case data of
        PDict d \<Rightarrow>
          (case map_of d k of
             None \<Rightarrow> Inl Unhandled
           | Some v \<Rightarrow>
               (case py_float sf v of
                  Inr x \<Rightarrow> Inr x
                | Inl TypeError \<Rightarrow> Inl NotNumbers
                | Inl ValueError \<Rightarrow> Inl NotNumbers
                | Inl OverflowError \<Rightarrow> Inl Unhandled))
      | _ \<Rightarrow> Inl NotNumbers)"

text \<open>The body of the response, line 58.\<close>

definition app_response :: "string \<Rightarrow> real \<Rightarrow> response" where
  "app_response label proba = \<lparr>risk = label, probability = py_round proba 4, inputs = None\<rparr>"

text \<open>
  The view \<open>predict\<close> of app.py, on the global \<open>model\<close> and the parsed body
  (\<open>get_json(silent=True)\<close> gives \<open>None\<close> for a body that is not JSON).
\<close>

definition app_predict ::
  "artifact option \<Rightarrow> (string \<Rightarrow> real option) \<Rightarrow> pyval \<Rightarrow> failure + response" where
  "app_predict model sf payload =
     (case model of
        None \<Rightarrow> Inl ModelNotLoaded
      | Some m \<Rightarrow>
          (let data = (if truthy payload then payload else PDict []) in
           (case py_in data of
              None \<Rightarrow> Inl Unhandled
            | Some has \<Rightarrow>
                (let missing = filter (\<lambda>k. \<not> has k) [''bp'', ''heart_rate'', ''sugar'', ''bmi''] in
                 if missing \<noteq> [] then Inl (MissingFields missing)
                 else
                   (case item_float sf data ''bp'' of
                      Inl e \<Rightarrow> Inl e
                    | Inr bp \<Rightarrow>
                   (case item_float sf data ''heart_rate'' of
                      Inl e \<Rightarrow> Inl e
                    | Inr hr \<Rightarrow>
                   (case item_float sf data ''sugar'' of
                      Inl e \<Rightarrow> Inl e
                    | Inr sugar \<Rightarrow>
                   (case item_float sf data ''bmi'' of
                      Inl e \<Rightarrow> Inl e
                    | Inr bmi \<Rightarrow>
                   (case m [bp, hr, sugar, bmi] of
                      Inl e \<Rightarrow> Inl (PredictionFailed e)
                    | Inr proba \<Rightarrow>
                        (let label = bucketize proba in
                         Inr (app_response label proba)))))))))))"

section \<open>app.py: the content of the report\<close>

text \<open>
  \<open>str(x)\<close>. The text of a float, a list or a dict is the interpreter's \<open>repr\<close>, the
  parameter \<open>rp\<close>.
\<close>

fun digits :: "nat \<Rightarrow> string" where
  "digits n =
     (if n < 10 then [''0123456789'' ! n]
      else digits (n div 10) @ [''0123456789'' ! (n mod 10)])"

definition str_int :: "int \<Rightarrow> string" where
  "str_int i = (if i < 0 then CHR ''-'' # digits (nat (- i)) else digits (nat i))"

fun py_str :: "(pyval \<Rightarrow> string) \<Rightarrow> pyval \<Rightarrow> string" where
  "py_str rp (PStr s) = s"
| "py_str rp PNone = ''None''"
| "py_str rp (PBool b) = (if b then ''True'' else ''False'')"
| "py_str rp (PInt i) = str_int i"
| "py_str rp (PFloat x) = rp (PFloat x)"
| "py_str rp (PList l) = rp (PList l)"
| "py_str rp (PDict d) = rp (PDict d)"

text \<open>
  The flowables that \<open>_build_pdf\<close> appends to \<open>elements\<close>: a paragraph (its text and the
  name of its style), a spacer, the table (its cells; the table style is a constant).
  Typesetting them is reportlab's \<open>doc.build\<close>, outside this development.
\<close>

datatype element =
    Paragraph pyval string
  | Spacer nat nat
  | Table "string list list"

text \<open>
  \<open>Paragraph(text, style)\<close>. reportlab's constructor reads its text as markup and raises
  on a text it cannot read. Which texts it takes is the library's business: the
  predicate \<open>parses\<close> is a parameter, and \<open>None\<close> stands for the exception.
\<close>

definition new_paragraph :: "(pyval \<Rightarrow> bool) \<Rightarrow> pyval \<Rightarrow> string \<Rightarrow> element option" where
  "new_paragraph parses text style = (if parses text then Some (Paragraph text style) else None)"

text \<open>
  The user lines. Each key comes with \<open>k.title()\<close>. \<open>None\<close> as result stands for an
  exception: \<open>user.get\<close> on a value that is no dict.
\<close>

definition user_block :: "(pyval \<Rightarrow> string) \<Rightarrow> pyval \<Rightarrow> string list option" where
  "user_block rp data_user =
     (let user = (if truthy data_user then data_user else PDict []) in
      case user of
        PDict u \<Rightarrow>
          (let user_lines =
                 concat (map (\<lambda>(k, t).
                     if dict_get u k \<noteq> PNone
                     then [''<b>'' @ t @ ''</b>: '' @ py_str rp (dict_get u k)] else [])
                   [(''name'', ''Name''), (''email'', ''Email''), (''age'', ''Age''),
                    (''gender'', ''Gender''), (''id'', ''Id'')])
           in Some (if user_lines = [] then [''No user details provided''] else user_lines))
      | _ \<Rightarrow> None)"

text \<open>The cells of one row, lines 131 to 138, for a reading that is a dict.\<close>

definition row_cells :: "(pyval \<Rightarrow> string) \<Rightarrow> (string \<times> pyval) list \<Rightarrow> string list" where
  "row_cells rp d =
     [py_str rp (dict_get_default d ''date''),
      py_str rp (dict_get_default d ''systolic''),
      py_str rp (dict_get_default d ''diastolic''),
      py_str rp (dict_get_default d ''heartRate''),
      py_str rp (dict_get_default d ''sugar''),
      py_str rp (dict_get_default d ''bmi'')]"

text \<open>One pass of the loop body; \<open>r.get\<close> raises on a value that is no dict.\<close>

definition reading_row :: "(pyval \<Rightarrow> string) \<Rightarrow> pyval \<Rightarrow> string list option" where
  "reading_row rp r = (case r of PDict d \<Rightarrow> Some (row_cells rp d) | _ \<Rightarrow> None)"

text \<open>The loop over the readings: it ends at the first exception.\<close>

fun reading_rows :: "(pyval \<Rightarrow> string) \<Rightarrow> pyval list \<Rightarrow> string list list option" where
  "reading_rows rp [] = Some []"
| "reading_rows rp (r # rs) =
     (case reading_row rp r of
        None \<Rightarrow> None
      | Some row \<Rightarrow> (case reading_rows rp rs of None \<Rightarrow> None | Some t \<Rightarrow> Some (row # t)))"

definition table_header :: "string list" where
  "table_header = [''Date'', ''Systolic'', ''Diastolic'', ''Heart Rate'', ''Glucose'', ''BMI'']"

text \<open>
  \<open>table_data\<close>, lines 128 to 138, from \<open>data.get('readings')\<close>. A value that is true and
  no list raises, in the slice or at the first \<open>r.get\<close>.
\<close>

definition readings_table :: "(pyval \<Rightarrow> string) \<Rightarrow> pyval \<Rightarrow> string list list option" where
  "readings_table rp data_readings =
     (if \<not> truthy data_readings then Some [table_header]
      else
        (case data_readings of
           PList l \<Rightarrow>
             (case reading_rows rp (take 5 l) of
                None \<Rightarrow> None
              | Some t \<Rightarrow> Some (table_header # t))
         | _ \<Rightarrow> None))"

text \<open>
  The argument of the last paragraph, lines 153 to 160, from the dict \<open>data\<close>.
\<close>

definition summary :: "(pyval \<Rightarrow> string) \<Rightarrow> (string \<times> pyval) list \<Rightarrow> pyval option" where
  "summary rp data =
     (let ai_summary = dict_get data ''ai_summary'' in
      if \<not> truthy ai_summary then
        (let p = dict_get data ''prediction'';
             pred = (if truthy p then p else PDict []) in
         case pred of
           PDict pd \<Rightarrow>
             (let risk = dict_get pd ''risk'';
                  proba = dict_get pd ''probability'';
                  ai_summary =
                    (if risk \<noteq> PNone \<and> proba \<noteq> PNone
                     then PStr (''Risk: '' @ py_str rp risk @ '' (probability ''
                                @ py_str rp proba @ '')'')
                     else ai_summary)
              in Some (if truthy ai_summary then ai_summary else PStr ''N/A''))
         | _ \<Rightarrow> None)
      else Some ai_summary)"

text \<open>
  \<open>_build_pdf\<close>: the list \<open>elements\<close> handed to \<open>doc.build\<close>, for the timestamp \<open>ts\<close>;
  \<open>None\<close> when an exception leaves the function, be it from the user lines, the
  readings, the summary or the constructor of a paragraph.
\<close>

definition build_pdf ::
  "(pyval \<Rightarrow> bool) \<Rightarrow> (pyval \<Rightarrow> string) \<Rightarrow> string \<Rightarrow> pyval \<Rightarrow> element list option" where
  "build_pdf parses rp ts data =
     (case data of
        PDict d \<Rightarrow>
          (case user_block rp (dict_get d ''user'') of
             None \<Rightarrow> None
           | Some user_lines \<Rightarrow>
          (case readings_table rp (dict_get d ''readings'') of
             None \<Rightarrow> None
           | Some table_data \<Rightarrow>
          (case summary rp d of
             None \<Rightarrow> None
           | Some s \<Rightarrow>
               those
                 ([new_paragraph parses (PStr ''HealTrack Health Report'') ''Title'',
                   Some (Spacer 1 12),
                   new_paragraph parses (PStr (''Generated: '' @ ts)) ''Normal'',
                   Some (Spacer 1 12),
                   new_paragraph parses (PStr ''User Details'') ''Heading2'']
                  @ map (\<lambda>line. new_paragraph parses (PStr line) ''Normal'') user_lines
                  @ [Some (Spacer 1 12),
                     new_paragraph parses (PStr ''Last 5 Health Readings'') ''Heading2'',
                     Some (Table table_data),
                     Some (Spacer 1 12),
                     new_paragraph parses (PStr ''AI Prediction Summary'') ''Heading2'',
                     new_paragraph parses s ''Normal'']))))
      | _ \<Rightarrow> None)"

text \<open>
  The content part of the view \<open>generate_report\<close>: the body, or \<open>{}\<close> in place of a body
  that is false.
\<close>

definition generate_report ::
  "(pyval \<Rightarrow> bool) \<Rightarrow> (pyval \<Rightarrow> string) \<Rightarrow> string \<Rightarrow> pyval \<Rightarrow> element list option" where
  "generate_report parses rp ts payload =
     build_pdf parses rp ts (if truthy payload then payload else PDict [])"

section \<open>Instances for evaluation\<close>

text \<open>
  An artifact that answers the probability \<open>p\<close> on every feature row, a \<open>repr\<close> that
  prints the text \<open>s\<close>, and a paragraph constructor that takes every text but one: with
  them, and with \<open>Map.empty\<close> as the parser that accepts no string, the services are
  evaluated on concrete requests.
\<close>

definition constant_model :: "real \<Rightarrow> artifact" where
  "constant_model p X = Inr p"

definition fixed_repr :: "string \<Rightarrow> pyval \<Rightarrow> string" where
  "fixed_repr s v = s"

definition parses_except :: "pyval \<Rightarrow> pyval \<Rightarrow> bool" where
  "parses_except bad text = (text \<noteq> bad)"

text \<open>An integer that JSON can carry and no float can hold.\<close>

definition huge_int :: int where
  "huge_int = 10 ^ 400"

section \<open>Rounding\<close>

lemma round_half_even_le: "y \<le> of_int b \<Longrightarrow> round_half_even y \<le> b"
proof -
  assume h: "y \<le> of_int b"
  have f: "\<lfloor>y\<rfloor> \<le> b" using h by (simp add: floor_le_iff)
  have g: "\<lfloor>y\<rfloor> < b" if "0 < y - of_int \<lfloor>y\<rfloor>"
  proof -
    have "of_int \<lfloor>y\<rfloor> < (of_int b :: real)" using that h by linarith
    then show ?thesis by simp
  qed
  show ?thesis
    unfolding round_half_even_def Let_def using f g by auto
qed

lemma round_half_even_ge: "of_int a \<le> y \<Longrightarrow> a \<le> round_half_even y"
  unfolding round_half_even_def Let_def by (auto simp: le_floor_iff; linarith)


lemma py_round_ge: "of_int a \<le> x * 10 ^ n \<Longrightarrow> of_int a / 10 ^ n \<le> py_round x n"
  unfolding py_round_def
  by (simp add: divide_le_cancel round_half_even_ge)

lemma py_round_le: "x * 10 ^ n \<le> of_int b \<Longrightarrow> py_round x n \<le> of_int b / 10 ^ n"
  unfolding py_round_def
  by (simp add: divide_le_cancel round_half_even_le)


lemma py_round_3_range: "0.01 \<le> x \<Longrightarrow> x \<le> 0.99 \<Longrightarrow> 0.01 \<le> py_round x 3 \<and> py_round x 3 \<le> 0.99"
  using py_round_ge [of 10 x 3] py_round_le [of x 3 990] by simp

lemma py_round_4_range: "0 \<le> x \<Longrightarrow> x \<le> 1 \<Longrightarrow> 0 \<le> py_round x 4 \<and> py_round x 4 \<le> 1"
  using py_round_ge [of 0 x 4] py_round_le [of x 4 10000] by simp

section \<open>The bands of the rule-based scorer\<close>

lemma risk_band_range: "0.01 \<le> snd (risk_band s) \<and> snd (risk_band s) \<le> 0.99"
  by (auto simp: risk_band_def min_def max_def)

lemma risk_band_low: "0 \<le> s \<Longrightarrow> s \<le> 2 \<Longrightarrow> risk_band s = (''Low'', 0.15 + 0.1 * s)"
proof -
  assume h: "0 \<le> s" "s \<le> 2"
  have a: "0.15 + 0.1 * s \<le> (0.35::real)" "0.15 + 0.1 * s \<le> (0.99::real)"
    "(0.01::real) \<le> 0.15 + 0.1 * s" using h by (simp_all add: field_simps)
  show ?thesis using h a by (simp add: risk_band_def min_def max_def)
qed

lemma risk_band_medium: "2 < s \<Longrightarrow> s \<le> 4 \<Longrightarrow> risk_band s = (''Medium'', 0.45 + 0.1 * (s - 2))"
proof -
  assume h: "2 < s" "s \<le> 4"
  have a: "0.45 + 0.1 * (s - 2) \<le> (0.7::real)" "0.45 + 0.1 * (s - 2) \<le> (0.99::real)"
    "(0.01::real) \<le> 0.45 + 0.1 * (s - 2)" using h by (simp_all add: field_simps)
  show ?thesis using h a by (simp add: risk_band_def min_def max_def)
qed

lemma risk_band_high: "4 < s \<Longrightarrow> s \<le> 9 \<Longrightarrow> risk_band s = (''High'', 0.7 + 0.05 * (s - 4))"
proof -
  assume h: "4 < s" "s \<le> 9"
  have a: "0.7 + 0.05 * (s - 4) \<le> (0.95::real)" "0.7 + 0.05 * (s - 4) \<le> (0.99::real)"
    "(0.01::real) \<le> 0.7 + 0.05 * (s - 4)" using h by (simp_all add: field_simps)
  show ?thesis using h a by (simp add: risk_band_def min_def max_def)
qed

section \<open>The bucketizer\<close>

text \<open>
  C7: \<open>bucketize\<close> returns a label for every probability: Low strictly below 0.33,
  Medium from 0.33 (included) to 0.66 (excluded), High from 0.66 on; a boundary value
  belongs to the band above it. The six values of the specification are among them.
\<close>

theorem bucketize_bands:
  "(p < 0.33 \<longrightarrow> bucketize p = ''Low'')
   \<and> (0.33 \<le> p \<and> p < 0.66 \<longrightarrow> bucketize p = ''Medium'')
   \<and> (0.66 \<le> p \<longrightarrow> bucketize p = ''High'')
   \<and> bucketize p \<in> {''Low'', ''Medium'', ''High''}
   \<and> bucketize 0.329 = ''Low'' \<and> bucketize 0.33 = ''Medium''
   \<and> bucketize 0.659 = ''Medium'' \<and> bucketize 0.66 = ''High''
   \<and> bucketize 1.0 = ''High'' \<and> bucketize 0.0 = ''Low''"
  by (simp add: bucketize_def)

theorem bucketize_bands_witness:
  "(0.2::real) < 0.33 \<and> bucketize 0.2 = ''Low''
   \<and> (0.33::real) \<le> 0.5 \<and> (0.5::real) < 0.66 \<and> bucketize 0.5 = ''Medium''
   \<and> (0.66::real) \<le> 0.9 \<and> bucketize 0.9 = ''High''"
  using bucketize_bands [of "0.2"] bucketize_bands [of "0.5"] bucketize_bands [of "0.9"]
  by simp

section \<open>The two views on a dict body\<close>

lemma float_int_limit_large: "10 ^ 300 < float_int_limit"
  by (simp add: float_int_limit_def)

lemma py_float_huge: "py_float sf (PInt huge_int) = Inl OverflowError"
  by (simp add: float_int_limit_def huge_int_def)

lemma py_float_absent: "map_of d k = None \<Longrightarrow> py_float sf (dict_get d k) = Inl TypeError"
  by (simp add: dict_get_def)

lemma py_float_present:
  "py_float sf (dict_get d k) = Inr x \<Longrightarrow> \<exists>v. map_of d k = Some v \<and> py_float sf v = Inr x"
  by (cases "map_of d k") (simp_all add: dict_get_def)

lemma to_float_Inr: "py_float sf x = Inr v \<Longrightarrow> to_float sf x name = Inr v"
  by (simp add: to_float_def)

lemma to_float_Inl:
  "py_float sf x = Inl e \<Longrightarrow>
   to_float sf x name = Inl (if e = OverflowError then InternalError else NotANumber name)"
  by (cases e) (simp_all add: to_float_def)

lemma main_valid:
  assumes "py_float sf (dict_get d ''bp'') = Inr bp"
    and "py_float sf (dict_get d ''heart_rate'') = Inr hr"
    and "py_float sf (dict_get d ''sugar'') = Inr sugar"
    and "py_float sf (dict_get d ''bmi'') = Inr bmi"
  shows "main_predict sf (PDict d) =
           Inr (main_response (fst (compute_risk bp hr sugar bmi))
                  (snd (compute_risk bp hr sugar bmi)) bp hr sugar bmi)"
  using assms by (simp add: main_predict_def to_float_Inr split_def Let_def)

lemma main_fails_bp:
  assumes "py_float sf (dict_get d ''bp'') = Inl e"
  shows "main_predict sf (PDict d) =
           Inl (if e = OverflowError then InternalError else NotANumber ''bp'')"
  using assms by (simp add: main_predict_def to_float_Inl)

lemma main_fails_heart_rate:
  assumes "py_float sf (dict_get d ''bp'') = Inr bp"
    and "py_float sf (dict_get d ''heart_rate'') = Inl e"
  shows "main_predict sf (PDict d) =
           Inl (if e = OverflowError then InternalError else NotANumber ''heart_rate'')"
  using assms by (simp add: main_predict_def to_float_Inl to_float_Inr)

lemma main_fails_sugar:
  assumes "py_float sf (dict_get d ''bp'') = Inr bp"
    and "py_float sf (dict_get d ''heart_rate'') = Inr hr"
    and "py_float sf (dict_get d ''sugar'') = Inl e"
  shows "main_predict sf (PDict d) =
           Inl (if e = OverflowError then InternalError else NotANumber ''sugar'')"
  using assms by (simp add: main_predict_def to_float_Inl to_float_Inr)

lemma main_fails_bmi:
  assumes "py_float sf (dict_get d ''bp'') = Inr bp"
    and "py_float sf (dict_get d ''heart_rate'') = Inr hr"
    and "py_float sf (dict_get d ''sugar'') = Inr sugar"
    and "py_float sf (dict_get d ''bmi'') = Inl e"
  shows "main_predict sf (PDict d) =
           Inl (if e = OverflowError then InternalError else NotANumber ''bmi'')"
  using assms by (simp add: main_predict_def to_float_Inl to_float_Inr)

lemma body_or_empty: "(if truthy (PDict d) then PDict d else PDict []) = PDict d"
  by (cases d) simp_all

lemma item_float_Inr:
  "map_of d k \<noteq> None \<Longrightarrow> py_float sf (dict_get d k) = Inr x \<Longrightarrow> item_float sf (PDict d) k = Inr x"
  by (auto simp: item_float_def dict_get_def)

lemma item_float_Inl:
  "map_of d k \<noteq> None \<Longrightarrow> py_float sf (dict_get d k) = Inl e \<Longrightarrow>
   item_float sf (PDict d) k = Inl (if e = OverflowError then Unhandled else NotNumbers)"
  by (cases e) (auto simp: item_float_def dict_get_def)

lemma all_present:
  assumes "filter (\<lambda>k. map_of d k = None) [''bp'', ''heart_rate'', ''sugar'', ''bmi''] = []"
  shows "map_of d ''bp'' \<noteq> None" "map_of d ''heart_rate'' \<noteq> None"
    "map_of d ''sugar'' \<noteq> None" "map_of d ''bmi'' \<noteq> None"
  using assms by (auto split: if_splits)

lemma app_missing:
  assumes "filter (\<lambda>k. map_of d k = None) [''bp'', ''heart_rate'', ''sugar'', ''bmi''] \<noteq> []"
  shows "app_predict (Some m) sf (PDict d) =
           Inl (MissingFields (filter (\<lambda>k. map_of d k = None) [''bp'', ''heart_rate'', ''sugar'', ''bmi'']))"
proof -
  have "filter (\<lambda>k. \<not> map_of d k \<noteq> None) [''bp'', ''heart_rate'', ''sugar'', ''bmi'']
        = filter (\<lambda>k. map_of d k = None) [''bp'', ''heart_rate'', ''sugar'', ''bmi'']"
    by simp
  then show ?thesis
    using assms unfolding app_predict_def body_or_empty Let_def
    by (simp del: filter.simps)
qed

lemma app_present:
  assumes "filter (\<lambda>k. map_of d k = None) [''bp'', ''heart_rate'', ''sugar'', ''bmi''] = []"
  shows "app_predict (Some m) sf (PDict d) =
     (case item_float sf (PDict d) ''bp'' of
        Inl e \<Rightarrow> Inl e
      | Inr bp \<Rightarrow>
     (case item_float sf (PDict d) ''heart_rate'' of
        Inl e \<Rightarrow> Inl e
      | Inr hr \<Rightarrow>
     (case item_float sf (PDict d) ''sugar'' of
        Inl e \<Rightarrow> Inl e
      | Inr sugar \<Rightarrow>
     (case item_float sf (PDict d) ''bmi'' of
        Inl e \<Rightarrow> Inl e
      | Inr bmi \<Rightarrow>
     (case m [bp, hr, sugar, bmi] of
        Inl e \<Rightarrow> Inl (PredictionFailed e)
      | Inr proba \<Rightarrow> Inr (app_response (bucketize proba) proba))))))"
proof -
  have "filter (\<lambda>k. \<not> map_of d k \<noteq> None) [''bp'', ''heart_rate'', ''sugar'', ''bmi'']
        = filter (\<lambda>k. map_of d k = None) [''bp'', ''heart_rate'', ''sugar'', ''bmi'']"
    by simp
  then show ?thesis
    using assms unfolding app_predict_def body_or_empty Let_def
    by (simp del: filter.simps)
qed

lemma app_valid:
  assumes "py_float sf (dict_get d ''bp'') = Inr bp"
    and "py_float sf (dict_get d ''heart_rate'') = Inr hr"
    and "py_float sf (dict_get d ''sugar'') = Inr sugar"
    and "py_float sf (dict_get d ''bmi'') = Inr bmi"
  shows "app_predict (Some m) sf (PDict d) =
     (case m [bp, hr, sugar, bmi] of
        Inl e \<Rightarrow> Inl (PredictionFailed e)
      | Inr proba \<Rightarrow> Inr (app_response (bucketize proba) proba))"
proof -
  have p: "map_of d ''bp'' \<noteq> None" "map_of d ''heart_rate'' \<noteq> None"
    "map_of d ''sugar'' \<noteq> None" "map_of d ''bmi'' \<noteq> None"
    using assms py_float_present by fastforce+
  then have "filter (\<lambda>k. map_of d k = None) [''bp'', ''heart_rate'', ''sugar'', ''bmi''] = []"
    by simp
  then show ?thesis
    using assms p by (simp add: app_present item_float_Inr)
qed

lemma app_fails_bp:
  assumes "filter (\<lambda>k. map_of d k = None) [''bp'', ''heart_rate'', ''sugar'', ''bmi''] = []"
    and "py_float sf (dict_get d ''bp'') = Inl e"
  shows "app_predict (Some m) sf (PDict d) =
           Inl (if e = OverflowError then Unhandled else NotNumbers)"
  using assms(2) all_present [OF assms(1)]
  by (simp add: app_present [OF assms(1)] item_float_Inl)

lemma app_fails_heart_rate:
  assumes "filter (\<lambda>k. map_of d k = None) [''bp'', ''heart_rate'', ''sugar'', ''bmi''] = []"
    and "py_float sf (dict_get d ''bp'') = Inr bp"
    and "py_float sf (dict_get d ''heart_rate'') = Inl e"
  shows "app_predict (Some m) sf (PDict d) =
           Inl (if e = OverflowError then Unhandled else NotNumbers)"
  using assms(2,3) all_present [OF assms(1)]
  by (simp add: app_present [OF assms(1)] item_float_Inl item_float_Inr)

lemma app_fails_sugar:
  assumes "filter (\<lambda>k. map_of d k = None) [''bp'', ''heart_rate'', ''sugar'', ''bmi''] = []"
    and "py_float sf (dict_get d ''bp'') = Inr bp"
    and "py_float sf (dict_get d ''heart_rate'') = Inr hr"
    and "py_float sf (dict_get d ''sugar'') = Inl e"
  shows "app_predict (Some m) sf (PDict d) =
           Inl (if e = OverflowError then Unhandled else NotNumbers)"
  using assms(2,3,4) all_present [OF assms(1)]
  by (simp add: app_present [OF assms(1)] item_float_Inl item_float_Inr)

lemma app_fails_bmi:
  assumes "filter (\<lambda>k. map_of d k = None) [''bp'', ''heart_rate'', ''sugar'', ''bmi''] = []"
    and "py_float sf (dict_get d ''bp'') = Inr bp"
    and "py_float sf (dict_get d ''heart_rate'') = Inr hr"
    and "py_float sf (dict_get d ''sugar'') = Inr sugar"
    and "py_float sf (dict_get d ''bmi'') = Inl e"
  shows "app_predict (Some m) sf (PDict d) =
           Inl (if e = OverflowError then Unhandled else NotNumbers)"
  using assms(2,3,4,5) all_present [OF assms(1)]
  by (simp add: app_present [OF assms(1)] item_float_Inl item_float_Inr)

lemma right_limit_2: "((\<lambda>s. snd (risk_band s)) \<longlongrightarrow> 0.45) (at_right 2)"
proof -
  have e: "eventually (\<lambda>s. 0.45 + 0.1 * (s - 2) = snd (risk_band s)) (at_right 2)"
    unfolding eventually_at_right_field
    by (rule exI[of _ 4]) (simp add: risk_band_medium)
  have "((\<lambda>s::real. 0.45 + 0.1 * (s - 2)) \<longlongrightarrow> 0.45 + 0.1 * (2 - 2)) (at_right 2)"
    by (intro tendsto_intros)
  then have "((\<lambda>s::real. 0.45 + 0.1 * (s - 2)) \<longlongrightarrow> 0.45) (at_right 2)" by simp
  then show ?thesis using e by (rule Lim_transform_eventually)
qed

lemma right_limit_4: "((\<lambda>s. snd (risk_band s)) \<longlongrightarrow> 0.7) (at_right 4)"
proof -
  have e: "eventually (\<lambda>s. 0.7 + 0.05 * (s - 4) = snd (risk_band s)) (at_right 4)"
    unfolding eventually_at_right_field
    by (rule exI[of _ 9]) (simp add: risk_band_high)
  have "((\<lambda>s::real. 0.7 + 0.05 * (s - 4)) \<longlongrightarrow> 0.7 + 0.05 * (4 - 4)) (at_right 4)"
    by (intro tendsto_intros)
  then have "((\<lambda>s::real. 0.7 + 0.05 * (s - 4)) \<longlongrightarrow> 0.7) (at_right 4)" by simp
  then show ?thesis using e by (rule Lim_transform_eventually)
qed

section \<open>The scorer at the values of the specification\<close>

text \<open>
  C2, as the claim states it, fails: at bp=80, heart_rate=60, sugar=70, bmi=22 the
  score is not 0 and the probability is not 0.15.
\<close>

theorem minimum_severity_counterexample:
  "\<not> (compute_score 80 60 70 22 = 0 \<and> compute_risk 80 60 70 22 = (''Low'', 0.15))"
  by (simp add: compute_score_def)

text \<open>
  C2, amended: at bp=80, heart_rate=60, sugar=70, bmi=22 the scorer computes the score
  0.5, since a systolic pressure of at most 90 adds 0.5, and returns Low with
  probability 0.2, which the view sends unchanged by the rounding; the score 0 with
  Low and 0.15 is what it computes at bp=120 with the same other vitals.
\<close>

theorem minimum_severity:
  "compute_score 80 60 70 22 = 0.5
   \<and> compute_risk 80 60 70 22 = (''Low'', 0.2)
   \<and> main_predict sf (PDict [(''bp'', PInt 80), (''heart_rate'', PInt 60),
                              (''sugar'', PInt 70), (''bmi'', PInt 22)])
       = Inr \<lparr>risk = ''Low'', probability = 0.2,
              inputs = Some [(''bp'', 80), (''heart_rate'', 60), (''sugar'', 70), (''bmi'', 22)]\<rparr>
   \<and> compute_score 120 60 70 22 = 0
   \<and> compute_risk 120 60 70 22 = (''Low'', 0.15)"
proof -
  have s: "compute_score 80 60 70 22 = 0.5" by (simp add: compute_score_def)
  have r: "compute_risk 80 60 70 22 = (''Low'', 0.2)"
    by (simp add: compute_risk_def s risk_band_def)
  have p: "py_round 0.2 3 = 0.2" by (simp add: py_round_def round_half_even_def)
  have m: "main_predict sf (PDict [(''bp'', PInt 80), (''heart_rate'', PInt 60),
                              (''sugar'', PInt 70), (''bmi'', PInt 22)])
       = Inr \<lparr>risk = ''Low'', probability = 0.2,
              inputs = Some [(''bp'', 80), (''heart_rate'', 60), (''sugar'', 70), (''bmi'', 22)]\<rparr>"
    using main_valid [of sf "[(''bp'', PInt 80), (''heart_rate'', PInt 60),
                              (''sugar'', PInt 70), (''bmi'', PInt 22)]" 80 60 70 22] r p
    by (simp add: dict_get_def main_response_def float_int_limit_def)
  have s0: "compute_score 120 60 70 22 = 0" by (simp add: compute_score_def)
  have r0: "compute_risk 120 60 70 22 = (''Low'', 0.15)"
    by (simp add: compute_risk_def s0 risk_band_def)
  show ?thesis using s r m s0 r0 by simp
qed

text \<open>
  C5, as the claim states it, fails at the second boundary: the Medium branch at the
  score 4.0 yields 0.65, not 0.70.
\<close>

theorem band_boundaries_counterexample:
  "risk_band 4.0 = (''Medium'', 0.65) \<and> snd (risk_band 4.0) \<noteq> 0.70"
  by (simp add: risk_band_def)

text \<open>
  C5, amended: the mapping from score to probability steps up at both band boundaries.
  At the score 2.0 it is 0.35 (Low) and its limit from above is 0.45; at the score 4.0
  it is 0.65 (Medium) and its limit from above is 0.70, so it is not continuous there
  either. Both scores are reached: 2.0 at bp=140, and 4.0 at bp=140 with heart_rate=120.
\<close>

theorem band_boundaries:
  "risk_band 2.0 = (''Low'', 0.35)
   \<and> ((\<lambda>s. snd (risk_band s)) \<longlongrightarrow> 0.45) (at_right 2.0)
   \<and> risk_band 4.0 = (''Medium'', 0.65)
   \<and> ((\<lambda>s. snd (risk_band s)) \<longlongrightarrow> 0.70) (at_right 4.0)
   \<and> compute_score 140 60 70 22 = 2.0
   \<and> compute_score 140 120 70 22 = 4.0"
proof -
  have a: "risk_band 2.0 = (''Low'', 0.35)" by (simp add: risk_band_def)
  have b: "risk_band 4.0 = (''Medium'', 0.65)" by (simp add: risk_band_def)
  have c: "compute_score 140 60 70 22 = 2.0" by (simp add: compute_score_def)
  have d: "compute_score 140 120 70 22 = 4.0" by (simp add: compute_score_def)
  show ?thesis using a b c d right_limit_2 right_limit_4 by simp
qed

section \<open>The range of the probability\<close>

text \<open>
  C1, as the claim states it, fails on the model-backed path: app.py has no clamp, and
  an artifact that answers 1 on a valid body yields the probability 1, above 0.99.
\<close>

theorem probability_clamped_counterexample:
  "app_predict (Some (constant_model 1)) Map.empty
     (PDict [(''bp'', PInt 120), (''heart_rate'', PInt 70), (''sugar'', PInt 100), (''bmi'', PInt 24)])
   = Inr \<lparr>risk = ''High'', probability = 1, inputs = None\<rparr>
   \<and> \<not> (1::real) \<le> 0.99"
proof -
  have p: "py_round 1 4 = 1" by (simp add: py_round_def round_half_even_def)
  show ?thesis
    using app_valid [of Map.empty "[(''bp'', PInt 120), (''heart_rate'', PInt 70),
        (''sugar'', PInt 100), (''bmi'', PInt 24)]" 120 70 100 24 "constant_model 1"] p
    by (simp add: dict_get_def constant_model_def bucketize_def app_response_def
        float_int_limit_def)
qed

text \<open>
  C1, amended: for every body whose four vitals \<open>float\<close> converts to numbers, the
  rule-based view returns an assessment whose probability lies within [0.01, 0.99]; the
  model-backed view, with an artifact loaded that answers a probability \<open>p\<close> in [0, 1],
  returns an assessment whose probability is \<open>p\<close> rounded to 4 decimals and lies within
  [0, 1]: it is not clamped into [0.01, 0.99].
\<close>

theorem probability_range:
  assumes "py_float sf (dict_get d ''bp'') = Inr bp"
    and "py_float sf (dict_get d ''heart_rate'') = Inr hr"
    and "py_float sf (dict_get d ''sugar'') = Inr sugar"
    and "py_float sf (dict_get d ''bmi'') = Inr bmi"
  shows "(\<exists>r. main_predict sf (PDict d) = Inr r
              \<and> 0.01 \<le> probability r \<and> probability r \<le> 0.99)
       \<and> (\<forall>p. m [bp, hr, sugar, bmi] = Inr p \<and> 0 \<le> p \<and> p \<le> 1 \<longrightarrow>
              (\<exists>r. app_predict (Some m) sf (PDict d) = Inr r
                    \<and> probability r = py_round p 4
                    \<and> 0 \<le> probability r \<and> probability r \<le> 1))"
proof (intro conjI allI impI)
  let ?c = "compute_risk bp hr sugar bmi"
  have "0.01 \<le> snd ?c \<and> snd ?c \<le> 0.99"
    unfolding compute_risk_def by (rule risk_band_range)
  then have "0.01 \<le> py_round (snd ?c) 3 \<and> py_round (snd ?c) 3 \<le> 0.99"
    using py_round_3_range [of "snd ?c"] by blast
  then show "\<exists>r. main_predict sf (PDict d) = Inr r
              \<and> 0.01 \<le> probability r \<and> probability r \<le> 0.99"
    unfolding main_valid [OF assms] by (simp add: main_response_def)
next
  fix p
  assume h: "m [bp, hr, sugar, bmi] = Inr p \<and> 0 \<le> p \<and> p \<le> 1"
  then have "0 \<le> py_round p 4 \<and> py_round p 4 \<le> 1"
    using py_round_4_range [of p] by blast
  then show "\<exists>r. app_predict (Some m) sf (PDict d) = Inr r
                    \<and> probability r = py_round p 4
                    \<and> 0 \<le> probability r \<and> probability r \<le> 1"
    unfolding app_valid [OF assms] using h by (simp add: app_response_def)
qed

theorem probability_range_witness:
  "py_float Map.empty (dict_get [(''bp'', PInt 185), (''heart_rate'', PInt 125),
        (''sugar'', PInt 260), (''bmi'', PFloat 36.5)] ''bp'') = Inr 185
   \<and> py_float Map.empty (dict_get [(''bp'', PInt 185), (''heart_rate'', PInt 125),
        (''sugar'', PInt 260), (''bmi'', PFloat 36.5)] ''bmi'') = Inr 36.5
   \<and> (\<exists>r. main_predict Map.empty (PDict [(''bp'', PInt 185), (''heart_rate'', PInt 125),
        (''sugar'', PInt 260), (''bmi'', PFloat 36.5)]) = Inr r
        \<and> 0.01 \<le> probability r \<and> probability r \<le> 0.99)
   \<and> constant_model 0.5 [185, 125, 260, 36.5] = Inr 0.5
   \<and> (\<exists>r. app_predict (Some (constant_model 0.5)) Map.empty
          (PDict [(''bp'', PInt 185), (''heart_rate'', PInt 125),
                  (''sugar'', PInt 260), (''bmi'', PFloat 36.5)]) = Inr r
        \<and> probability r = py_round 0.5 4
        \<and> 0 \<le> probability r \<and> probability r \<le> 1)"
  using probability_range [of Map.empty "[(''bp'', PInt 185), (''heart_rate'', PInt 125),
        (''sugar'', PInt 260), (''bmi'', PFloat 36.5)]" 185 125 260 "36.5" "constant_model 0.5"]
  by (simp add: dict_get_def constant_model_def float_int_limit_def)

section \<open>Missing fields\<close>

text \<open>
  C3, as the claim states it, fails on the rule-based path: for the body
  \<open>{bp: 120, heart_rate: 70}\<close> main.py answers that 'sugar' must be a number, which
  names the first absent key only and is no list of missing fields.
\<close>

theorem missing_fields_counterexample:
  "main_predict Map.empty (PDict [(''bp'', PInt 120), (''heart_rate'', PInt 70)])
     = Inl (NotANumber ''sugar'')
   \<and> main_predict Map.empty (PDict [(''bp'', PInt 120), (''heart_rate'', PInt 70)])
     \<noteq> Inl (MissingFields [''sugar'', ''bmi''])"
  by (simp add: main_predict_def to_float_def dict_get_def float_int_limit_def)

text \<open>
  C3, amended: the model-backed view with an artifact loaded answers every body that
  lacks one of bp, heart_rate, sugar, bmi with the error MissingFields listing every
  absent key, in the fixed order bp, heart_rate, sugar, bmi; the body
  \<open>{bp: 120, heart_rate: 70}\<close> yields exactly sugar and bmi ("Missing fields: sugar,
  bmi"). The rule-based view reads the keys in that order and answers with the error
  of one field: when the keys before the first absent key convert to numbers, the
  error is "'k' must be a number" for that first absent key \<open>k\<close>; for
  \<open>{bp: 120, heart_rate: 70}\<close> that key is sugar.
\<close>

theorem missing_fields_listed:
  "(filter (\<lambda>k. map_of d k = None) [''bp'', ''heart_rate'', ''sugar'', ''bmi''] \<noteq> [] \<longrightarrow>
      app_predict (Some m) sf (PDict d)
        = Inl (MissingFields (filter (\<lambda>k. map_of d k = None)
                 [''bp'', ''heart_rate'', ''sugar'', ''bmi''])))
   \<and> app_predict (Some m) sf (PDict [(''bp'', PInt 120), (''heart_rate'', PInt 70)])
        = Inl (MissingFields [''sugar'', ''bmi''])
   \<and> message (MissingFields [''sugar'', ''bmi'']) = ''Missing fields: sugar, bmi''
   \<and> (map_of d ''bp'' = None \<longrightarrow> main_predict sf (PDict d) = Inl (NotANumber ''bp''))
   \<and> (py_float sf (dict_get d ''bp'') = Inr bp \<and> map_of d ''heart_rate'' = None
        \<longrightarrow> main_predict sf (PDict d) = Inl (NotANumber ''heart_rate''))
   \<and> (py_float sf (dict_get d ''bp'') = Inr bp
        \<and> py_float sf (dict_get d ''heart_rate'') = Inr hr \<and> map_of d ''sugar'' = None
        \<longrightarrow> main_predict sf (PDict d) = Inl (NotANumber ''sugar''))
   \<and> (py_float sf (dict_get d ''bp'') = Inr bp
        \<and> py_float sf (dict_get d ''heart_rate'') = Inr hr
        \<and> py_float sf (dict_get d ''sugar'') = Inr sugar \<and> map_of d ''bmi'' = None
        \<longrightarrow> main_predict sf (PDict d) = Inl (NotANumber ''bmi''))
   \<and> main_predict sf (PDict [(''bp'', PInt 120), (''heart_rate'', PInt 70)])
        = Inl (NotANumber ''sugar'')
   \<and> message (NotANumber ''sugar'') = [CHR 0x27] @ ''sugar'' @ [CHR 0x27] @ '' must be a number''"
proof (intro conjI impI)
  assume "filter (\<lambda>k. map_of d k = None) [''bp'', ''heart_rate'', ''sugar'', ''bmi''] \<noteq> []"
  then show "app_predict (Some m) sf (PDict d)
        = Inl (MissingFields (filter (\<lambda>k. map_of d k = None)
                 [''bp'', ''heart_rate'', ''sugar'', ''bmi'']))"
    by (rule app_missing)
next
  show "app_predict (Some m) sf (PDict [(''bp'', PInt 120), (''heart_rate'', PInt 70)])
        = Inl (MissingFields [''sugar'', ''bmi''])"
    using app_missing [of "[(''bp'', PInt 120), (''heart_rate'', PInt 70)]" m sf] by simp
next
  show "message (MissingFields [''sugar'', ''bmi'']) = ''Missing fields: sugar, bmi''"
    by simp
next
  assume "map_of d ''bp'' = None"
  then show "main_predict sf (PDict d) = Inl (NotANumber ''bp'')"
    using main_fails_bp [OF py_float_absent] by simp
next
  assume "py_float sf (dict_get d ''bp'') = Inr bp \<and> map_of d ''heart_rate'' = None"
  then show "main_predict sf (PDict d) = Inl (NotANumber ''heart_rate'')"
    using main_fails_heart_rate [OF _ py_float_absent] by simp
next
  assume "py_float sf (dict_get d ''bp'') = Inr bp
        \<and> py_float sf (dict_get d ''heart_rate'') = Inr hr \<and> map_of d ''sugar'' = None"
  then show "main_predict sf (PDict d) = Inl (NotANumber ''sugar'')"
    using main_fails_sugar [OF _ _ py_float_absent] by simp
next
  assume "py_float sf (dict_get d ''bp'') = Inr bp
        \<and> py_float sf (dict_get d ''heart_rate'') = Inr hr
        \<and> py_float sf (dict_get d ''sugar'') = Inr sugar \<and> map_of d ''bmi'' = None"
  then show "main_predict sf (PDict d) = Inl (NotANumber ''bmi'')"
    using main_fails_bmi [OF _ _ _ py_float_absent] by simp
next
  show "main_predict sf (PDict [(''bp'', PInt 120), (''heart_rate'', PInt 70)])
        = Inl (NotANumber ''sugar'')"
    by (simp add: main_predict_def to_float_def dict_get_def float_int_limit_def)
next
  show "message (NotANumber ''sugar'') = [CHR 0x27] @ ''sugar'' @ [CHR 0x27] @ '' must be a number''"
    by simp
qed

theorem missing_fields_listed_witness:
  "filter (\<lambda>k. map_of [(''bp'', PInt 120), (''sugar'', PInt 100)] k = None)
       [''bp'', ''heart_rate'', ''sugar'', ''bmi'']
     = [''heart_rate'', ''bmi'']
   \<and> app_predict (Some (constant_model 0.5)) Map.empty
        (PDict [(''bp'', PInt 120), (''sugar'', PInt 100)])
     = Inl (MissingFields [''heart_rate'', ''bmi''])
   \<and> py_float Map.empty (dict_get [(''bp'', PInt 120), (''sugar'', PInt 100)] ''bp'') = Inr 120
   \<and> map_of [(''bp'', PInt 120), (''sugar'', PInt 100)] ''heart_rate'' = None
   \<and> main_predict Map.empty (PDict [(''bp'', PInt 120), (''sugar'', PInt 100)])
     = Inl (NotANumber ''heart_rate'')
   \<and> map_of [(''sugar'', PInt 100)] ''bp'' = None
   \<and> main_predict Map.empty (PDict [(''sugar'', PInt 100)]) = Inl (NotANumber ''bp'')"
  using missing_fields_listed [of "[(''bp'', PInt 120), (''sugar'', PInt 100)]"
          "constant_model 0.5" Map.empty 120]
        missing_fields_listed [of "[(''sugar'', PInt 100)]" "constant_model 0.5" Map.empty]
  by (simp add: dict_get_def float_int_limit_def)

section \<open>Validation and dispatch\<close>

text \<open>
  C4, as the claim states it, fails: with no artifact loaded the model-backed view
  answers a body with missing fields by "Model not loaded", not by MissingFields.
\<close>

theorem validation_first_counterexample:
  "app_predict None Map.empty (PDict [(''bp'', PInt 120), (''heart_rate'', PInt 70)])
     = Inl ModelNotLoaded
   \<and> app_predict None Map.empty (PDict [(''bp'', PInt 120), (''heart_rate'', PInt 70)])
     \<noteq> Inl (MissingFields [''sugar'', ''bmi''])"
  by (simp add: app_predict_def)

text \<open>
  C4, amended: the model-backed view first tests whether an artifact is loaded and with
  none answers every request, valid or not, with the error "Model not loaded". With an
  artifact loaded and whatever the artifact would answer or raise, a body with missing
  fields yields MissingFields; a body with the four fields present is converted field
  by field in the order bp, heart_rate, sugar, bmi, and the first field that \<open>float\<close>
  refuses decides: a \<open>TypeError\<close> or \<open>ValueError\<close> yields "All fields must be numbers",
  the \<open>OverflowError\<close> of a too large integer is not caught and yields an unhandled
  500. The rule-based view converts in the same order, and the first field that
  \<open>float\<close> refuses yields "'k' must be a number" for that field \<open>k\<close>, or the 500
  "Prediction failed" when the refusal is an \<open>OverflowError\<close>.
\<close>

theorem validation_first:
  "app_predict None sf payload = Inl ModelNotLoaded
   \<and> (filter (\<lambda>k. map_of d k = None) [''bp'', ''heart_rate'', ''sugar'', ''bmi''] \<noteq> [] \<longrightarrow>
        app_predict (Some m) sf (PDict d)
          = Inl (MissingFields (filter (\<lambda>k. map_of d k = None)
                   [''bp'', ''heart_rate'', ''sugar'', ''bmi''])))
   \<and> (filter (\<lambda>k. map_of d k = None) [''bp'', ''heart_rate'', ''sugar'', ''bmi''] = []
        \<and> py_float sf (dict_get d ''bp'') = Inl e
        \<longrightarrow> app_predict (Some m) sf (PDict d)
              = Inl (if e = OverflowError then Unhandled else NotNumbers))
   \<and> (filter (\<lambda>k. map_of d k = None) [''bp'', ''heart_rate'', ''sugar'', ''bmi''] = []
        \<and> py_float sf (dict_get d ''bp'') = Inr bp
        \<and> py_float sf (dict_get d ''heart_rate'') = Inl e
        \<longrightarrow> app_predict (Some m) sf (PDict d)
              = Inl (if e = OverflowError then Unhandled else NotNumbers))
   \<and> (filter (\<lambda>k. map_of d k = None) [''bp'', ''heart_rate'', ''sugar'', ''bmi''] = []
        \<and> py_float sf (dict_get d ''bp'') = Inr bp
        \<and> py_float sf (dict_get d ''heart_rate'') = Inr hr
        \<and> py_float sf (dict_get d ''sugar'') = Inl e
        \<longrightarrow> app_predict (Some m) sf (PDict d)
              = Inl (if e = OverflowError then Unhandled else NotNumbers))
   \<and> (filter (\<lambda>k. map_of d k = None) [''bp'', ''heart_rate'', ''sugar'', ''bmi''] = []
        \<and> py_float sf (dict_get d ''bp'') = Inr bp
        \<and> py_float sf (dict_get d ''heart_rate'') = Inr hr
        \<and> py_float sf (dict_get d ''sugar'') = Inr sugar
        \<and> py_float sf (dict_get d ''bmi'') = Inl e
        \<longrightarrow> app_predict (Some m) sf (PDict d)
              = Inl (if e = OverflowError then Unhandled else NotNumbers))
   \<and> (py_float sf (dict_get d ''bp'') = Inl e
        \<longrightarrow> main_predict sf (PDict d)
              = Inl (if e = OverflowError then InternalError else NotANumber ''bp''))
   \<and> (py_float sf (dict_get d ''bp'') = Inr bp
        \<and> py_float sf (dict_get d ''heart_rate'') = Inl e
        \<longrightarrow> main_predict sf (PDict d)
              = Inl (if e = OverflowError then InternalError else NotANumber ''heart_rate''))
   \<and> (py_float sf (dict_get d ''bp'') = Inr bp
        \<and> py_float sf (dict_get d ''heart_rate'') = Inr hr
        \<and> py_float sf (dict_get d ''sugar'') = Inl e
        \<longrightarrow> main_predict sf (PDict d)
              = Inl (if e = OverflowError then InternalError else NotANumber ''sugar''))
   \<and> (py_float sf (dict_get d ''bp'') = Inr bp
        \<and> py_float sf (dict_get d ''heart_rate'') = Inr hr
        \<and> py_float sf (dict_get d ''sugar'') = Inr sugar
        \<and> py_float sf (dict_get d ''bmi'') = Inl e
        \<longrightarrow> main_predict sf (PDict d)
              = Inl (if e = OverflowError then InternalError else NotANumber ''bmi''))"
proof (intro conjI impI)
  show "app_predict None sf payload = Inl ModelNotLoaded"
    by (simp add: app_predict_def)
next
  assume "filter (\<lambda>k. map_of d k = None) [''bp'', ''heart_rate'', ''sugar'', ''bmi''] \<noteq> []"
  then show "app_predict (Some m) sf (PDict d)
          = Inl (MissingFields (filter (\<lambda>k. map_of d k = None)
                   [''bp'', ''heart_rate'', ''sugar'', ''bmi'']))"
    by (rule app_missing)
next
  assume "filter (\<lambda>k. map_of d k = None) [''bp'', ''heart_rate'', ''sugar'', ''bmi''] = []
        \<and> py_float sf (dict_get d ''bp'') = Inl e"
  then show "app_predict (Some m) sf (PDict d)
              = Inl (if e = OverflowError then Unhandled else NotNumbers)"
    using app_fails_bp by blast
next
  assume "filter (\<lambda>k. map_of d k = None) [''bp'', ''heart_rate'', ''sugar'', ''bmi''] = []
        \<and> py_float sf (dict_get d ''bp'') = Inr bp
        \<and> py_float sf (dict_get d ''heart_rate'') = Inl e"
  then show "app_predict (Some m) sf (PDict d)
              = Inl (if e = OverflowError then Unhandled else NotNumbers)"
    using app_fails_heart_rate by blast
next
  assume "filter (\<lambda>k. map_of d k = None) [''bp'', ''heart_rate'', ''sugar'', ''bmi''] = []
        \<and> py_float sf (dict_get d ''bp'') = Inr bp
        \<and> py_float sf (dict_get d ''heart_rate'') = Inr hr
        \<and> py_float sf (dict_get d ''sugar'') = Inl e"
  then show "app_predict (Some m) sf (PDict d)
              = Inl (if e = OverflowError then Unhandled else NotNumbers)"
    using app_fails_sugar by blast
next
  assume "filter (\<lambda>k. map_of d k = None) [''bp'', ''heart_rate'', ''sugar'', ''bmi''] = []
        \<and> py_float sf (dict_get d ''bp'') = Inr bp
        \<and> py_float sf (dict_get d ''heart_rate'') = Inr hr
        \<and> py_float sf (dict_get d ''sugar'') = Inr sugar
        \<and> py_float sf (dict_get d ''bmi'') = Inl e"
  then show "app_predict (Some m) sf (PDict d)
              = Inl (if e = OverflowError then Unhandled else NotNumbers)"
    using app_fails_bmi by blast
next
  assume "py_float sf (dict_get d ''bp'') = Inl e"
  then show "main_predict sf (PDict d)
              = Inl (if e = OverflowError then InternalError else NotANumber ''bp'')"
    by (rule main_fails_bp)
next
  assume "py_float sf (dict_get d ''bp'') = Inr bp
        \<and> py_float sf (dict_get d ''heart_rate'') = Inl e"
  then show "main_predict sf (PDict d)
              = Inl (if e = OverflowError then InternalError else NotANumber ''heart_rate'')"
    using main_fails_heart_rate by blast
next
  assume "py_float sf (dict_get d ''bp'') = Inr bp
        \<and> py_float sf (dict_get d ''heart_rate'') = Inr hr
        \<and> py_float sf (dict_get d ''sugar'') = Inl e"
  then show "main_predict sf (PDict d)
              = Inl (if e = OverflowError then InternalError else NotANumber ''sugar'')"
    using main_fails_sugar by blast
next
  assume "py_float sf (dict_get d ''bp'') = Inr bp
        \<and> py_float sf (dict_get d ''heart_rate'') = Inr hr
        \<and> py_float sf (dict_get d ''sugar'') = Inr sugar
        \<and> py_float sf (dict_get d ''bmi'') = Inl e"
  then show "main_predict sf (PDict d)
              = Inl (if e = OverflowError then InternalError else NotANumber ''bmi'')"
    using main_fails_bmi by blast
qed

theorem validation_first_witness:
  "filter (\<lambda>k. map_of [(''bp'', PStr ''high''), (''heart_rate'', PInt 70), (''sugar'', PInt 100),
        (''bmi'', PInt 24)] k = None) [''bp'', ''heart_rate'', ''sugar'', ''bmi''] = []
   \<and> py_float Map.empty (dict_get [(''bp'', PStr ''high''), (''heart_rate'', PInt 70),
        (''sugar'', PInt 100), (''bmi'', PInt 24)] ''bp'') = Inl ValueError
   \<and> app_predict (Some (constant_model 0.5)) Map.empty
        (PDict [(''bp'', PStr ''high''), (''heart_rate'', PInt 70), (''sugar'', PInt 100),
                (''bmi'', PInt 24)]) = Inl NotNumbers
   \<and> main_predict Map.empty
        (PDict [(''bp'', PStr ''high''), (''heart_rate'', PInt 70), (''sugar'', PInt 100),
                (''bmi'', PInt 24)]) = Inl (NotANumber ''bp'')
   \<and> filter (\<lambda>k. map_of [(''bp'', PInt 120)] k = None) [''bp'', ''heart_rate'', ''sugar'', ''bmi'']
        = [''heart_rate'', ''sugar'', ''bmi'']
   \<and> app_predict (Some (constant_model 0.5)) Map.empty (PDict [(''bp'', PInt 120)])
        = Inl (MissingFields [''heart_rate'', ''sugar'', ''bmi''])
   \<and> py_float Map.empty (dict_get [(''bp'', PInt 120), (''heart_rate'', PInt huge_int),
        (''sugar'', PInt 100), (''bmi'', PInt 24)] ''heart_rate'') = Inl OverflowError
   \<and> app_predict (Some (constant_model 0.5)) Map.empty
        (PDict [(''bp'', PInt 120), (''heart_rate'', PInt huge_int), (''sugar'', PInt 100),
                (''bmi'', PInt 24)]) = Inl Unhandled
   \<and> main_predict Map.empty
        (PDict [(''bp'', PInt 120), (''heart_rate'', PInt huge_int), (''sugar'', PInt 100),
                (''bmi'', PInt 24)]) = Inl InternalError"
proof -
  let ?A = "[(''bp'', PStr ''high''), (''heart_rate'', PInt 70), (''sugar'', PInt 100),
             (''bmi'', PInt 24)]"
  let ?B = "[(''bp'', PInt 120)]"
  let ?C = "[(''bp'', PInt 120), (''heart_rate'', PInt huge_int), (''sugar'', PInt 100),
             (''bmi'', PInt 24)]"
  let ?m = "constant_model 0.5"
  have fA: "filter (\<lambda>k. map_of ?A k = None) [''bp'', ''heart_rate'', ''sugar'', ''bmi''] = []"
    by simp
  have pA: "py_float Map.empty (dict_get ?A ''bp'') = Inl ValueError"
    by (simp add: dict_get_def)
  have A3: "app_predict (Some ?m) Map.empty (PDict ?A) = Inl NotNumbers"
    using validation_first [where d = ?A and sf = Map.empty and m = ?m and e = ValueError,
        THEN conjunct2, THEN conjunct2, THEN conjunct1] fA pA
    by simp
  have A7: "main_predict Map.empty (PDict ?A) = Inl (NotANumber ''bp'')"
    using validation_first [where d = ?A and sf = Map.empty and m = ?m and e = ValueError,
        THEN conjunct2, THEN conjunct2, THEN conjunct2, THEN conjunct2, THEN conjunct2,
        THEN conjunct2, THEN conjunct1] pA
    by simp
  have fB: "filter (\<lambda>k. map_of ?B k = None) [''bp'', ''heart_rate'', ''sugar'', ''bmi'']
        = [''heart_rate'', ''sugar'', ''bmi'']"
    by simp
  have B2: "app_predict (Some ?m) Map.empty (PDict ?B)
        = Inl (MissingFields [''heart_rate'', ''sugar'', ''bmi''])"
    using validation_first [where d = ?B and sf = Map.empty and m = ?m,
        THEN conjunct2, THEN conjunct1] fB
    by simp
  have fC: "filter (\<lambda>k. map_of ?C k = None) [''bp'', ''heart_rate'', ''sugar'', ''bmi''] = []"
    by simp
  have qC: "py_float Map.empty (dict_get ?C ''bp'') = Inr 120"
    using float_int_limit_large by (simp add: dict_get_def)
  have pC: "py_float Map.empty (dict_get ?C ''heart_rate'') = Inl OverflowError"
    by (simp add: dict_get_def py_float_huge del: py_float.simps)
  have C4: "app_predict (Some ?m) Map.empty (PDict ?C) = Inl Unhandled"
    using validation_first [where d = ?C and sf = Map.empty and m = ?m and e = OverflowError
          and bp = 120,
        THEN conjunct2, THEN conjunct2, THEN conjunct2, THEN conjunct1] fC qC pC
    by simp
  have C8: "main_predict Map.empty (PDict ?C) = Inl InternalError"
    using validation_first [where d = ?C and sf = Map.empty and m = ?m and e = OverflowError
          and bp = 120,
        THEN conjunct2, THEN conjunct2, THEN conjunct2, THEN conjunct2, THEN conjunct2,
        THEN conjunct2, THEN conjunct2, THEN conjunct1] qC pC
    by simp
  from fA pA A3 A7 fB B2 pC C4 C8 show ?thesis by blast
qed

section \<open>Rounding of the probability\<close>




section \<open>Facts on the content of the report\<close>

lemma reading_rows_dicts: "reading_rows rp (map PDict ds) = Some (map (row_cells rp) ds)"
  by (induction ds) (simp_all add: reading_row_def)

lemma readings_table_dicts:
  "readings_table rp (PList (map PDict ds)) = Some (table_header # map (row_cells rp) (take 5 ds))"
proof (cases ds)
  case Nil
  then show ?thesis by (simp add: readings_table_def)
next
  case (Cons d ds')
  then have "truthy (PList (map PDict ds))" by simp
  then show ?thesis
    by (simp add: readings_table_def take_map reading_rows_dicts)
qed

lemma summary_supplied:
  "dict_get data ''ai_summary'' = PStr s \<Longrightarrow> s \<noteq> [] \<Longrightarrow> summary rp data = Some (PStr s)"
  by (simp add: summary_def)

lemma summary_synthesized:
  assumes "\<not> truthy (dict_get data ''ai_summary'')"
    and "dict_get data ''prediction'' = PDict pd"
    and "dict_get pd ''risk'' \<noteq> PNone" and "dict_get pd ''probability'' \<noteq> PNone"
  shows "summary rp data =
           Some (PStr (''Risk: '' @ py_str rp (dict_get pd ''risk'') @ '' (probability ''
                       @ py_str rp (dict_get pd ''probability'') @ '')''))"
proof -
  have "pd \<noteq> []" using assms(3) by (auto simp: dict_get_def)
  then show ?thesis using assms by (simp add: summary_def Let_def)
qed

lemma summary_placeholder:
  assumes "\<not> truthy (dict_get data ''ai_summary'')"
    and "\<not> truthy (dict_get data ''prediction'')
         \<or> (dict_get data ''prediction'' = PDict pd
             \<and> (dict_get pd ''risk'' = PNone \<or> dict_get pd ''probability'' = PNone))"
  shows "summary rp data = Some (PStr ''N/A'')"
  using assms(2)
proof
  assume "\<not> truthy (dict_get data ''prediction'')"
  then show ?thesis using assms(1) by (simp add: summary_def Let_def dict_get_def)
next
  assume "dict_get data ''prediction'' = PDict pd
             \<and> (dict_get pd ''risk'' = PNone \<or> dict_get pd ''probability'' = PNone)"
  then show ?thesis using assms(1) by (auto simp: summary_def Let_def dict_get_def)
qed

lemma those_append:
  "those (xs @ ys) =
     (case those xs of None \<Rightarrow> None
      | Some a \<Rightarrow> (case those ys of None \<Rightarrow> None | Some b \<Rightarrow> Some (a @ b)))"
  by (induction xs) (auto split: option.splits)

lemma those_paragraphs:
  "those (map (\<lambda>line. new_paragraph parses (PStr line) st) ul) =
     (if list_all (\<lambda>line. parses (PStr line)) ul
      then Some (map (\<lambda>line. Paragraph (PStr line) st) ul) else None)"
  by (induction ul) (auto simp: new_paragraph_def split: option.splits)

lemma build_pdf_dict:
  assumes "user_block rp (dict_get d ''user'') = Some ul"
    and "readings_table rp (dict_get d ''readings'') = Some t"
    and "summary rp d = Some s"
  shows "build_pdf parses rp ts (PDict d) =
     (if parses (PStr ''HealTrack Health Report'') \<and> parses (PStr (''Generated: '' @ ts))
         \<and> parses (PStr ''User Details'') \<and> list_all (\<lambda>line. parses (PStr line)) ul
         \<and> parses (PStr ''Last 5 Health Readings'') \<and> parses (PStr ''AI Prediction Summary'')
         \<and> parses s
      then Some ([Paragraph (PStr ''HealTrack Health Report'') ''Title'', Spacer 1 12,
                  Paragraph (PStr (''Generated: '' @ ts)) ''Normal'', Spacer 1 12,
                  Paragraph (PStr ''User Details'') ''Heading2'']
                 @ map (\<lambda>line. Paragraph (PStr line) ''Normal'') ul
                 @ [Spacer 1 12,
                    Paragraph (PStr ''Last 5 Health Readings'') ''Heading2'',
                    Table t, Spacer 1 12,
                    Paragraph (PStr ''AI Prediction Summary'') ''Heading2'',
                    Paragraph s ''Normal''])
      else None)"
  unfolding build_pdf_def pyval.case assms option.case those_append those_paragraphs
  by (simp add: new_paragraph_def)

lemma build_pdf_parts:
  assumes "build_pdf parses rp ts (PDict d) = Some els"
  shows "\<exists>ul t s. user_block rp (dict_get d ''user'') = Some ul
           \<and> readings_table rp (dict_get d ''readings'') = Some t
           \<and> summary rp d = Some s \<and> parses s
           \<and> els = [Paragraph (PStr ''HealTrack Health Report'') ''Title'', Spacer 1 12,
                      Paragraph (PStr (''Generated: '' @ ts)) ''Normal'', Spacer 1 12,
                      Paragraph (PStr ''User Details'') ''Heading2'']
                     @ map (\<lambda>line. Paragraph (PStr line) ''Normal'') ul
                     @ [Spacer 1 12,
                        Paragraph (PStr ''Last 5 Health Readings'') ''Heading2'',
                        Table t, Spacer 1 12,
                        Paragraph (PStr ''AI Prediction Summary'') ''Heading2'',
                        Paragraph s ''Normal'']"
proof -
  obtain ul where ul: "user_block rp (dict_get d ''user'') = Some ul"
    using assms by (cases "user_block rp (dict_get d ''user'')") (simp_all add: build_pdf_def)
  obtain t where t: "readings_table rp (dict_get d ''readings'') = Some t"
    using assms ul
    by (cases "readings_table rp (dict_get d ''readings'')") (simp_all add: build_pdf_def)
  obtain s where s: "summary rp d = Some s"
    using assms ul t by (cases "summary rp d") (simp_all add: build_pdf_def)
  show ?thesis
    using assms unfolding build_pdf_dict [OF ul t s]
    by (auto simp: ul t s split: if_splits)
qed

section \<open>The summary paragraph\<close>

text \<open>
  C8, as the claim states it, fails for the empty string: a supplied \<open>ai_summary\<close> that
  is empty counts as absent, and the paragraph is the placeholder N/A, or the
  synthesized line when a prediction is there.
\<close>

theorem summary_counterexample:
  "summary (fixed_repr ''0.5'') [(''ai_summary'', PStr [])] = Some (PStr ''N/A'')
   \<and> summary (fixed_repr ''0.5'')
         [(''ai_summary'', PStr []),
          (''prediction'', PDict [(''risk'', PStr ''Medium''), (''probability'', PFloat 0.5)])]
       = Some (PStr ''Risk: Medium (probability 0.5)'')
   \<and> PStr ''N/A'' \<noteq> PStr []"
  by (simp add: summary_def dict_get_def fixed_repr_def)

text \<open>
  C8, amended: a supplied summary string that is not empty is the text handed to the
  summary paragraph, verbatim. With no summary, or an empty one, and a prediction that
  holds both a risk and a probability other than \<open>None\<close>, that text reads
  "Risk: {risk} (probability {probability})", the two printed by \<open>str\<close>; with no
  prediction, or one that lacks either of the two, it is the placeholder N/A. The
  paragraph of that text is the last element of the report whenever the report is
  assembled, and it is assembled when the user lines, the table and the summary are
  there and the paragraph constructor takes every text; a summary text the
  constructor refuses makes the assembly fail.
\<close>

theorem summary_paragraph:
  "(dict_get data ''ai_summary'' = PStr s \<and> s \<noteq> [] \<longrightarrow> summary rp data = Some (PStr s))
   \<and> (\<not> truthy (dict_get data ''ai_summary'')
        \<and> dict_get data ''prediction'' = PDict pd
        \<and> dict_get pd ''risk'' \<noteq> PNone \<and> dict_get pd ''probability'' \<noteq> PNone
        \<longrightarrow> summary rp data =
              Some (PStr (''Risk: '' @ py_str rp (dict_get pd ''risk'') @ '' (probability ''
                          @ py_str rp (dict_get pd ''probability'') @ '')'')))
   \<and> (\<not> truthy (dict_get data ''ai_summary'')
        \<and> (\<not> truthy (dict_get data ''prediction'')
            \<or> (dict_get data ''prediction'' = PDict pd
                \<and> (dict_get pd ''risk'' = PNone \<or> dict_get pd ''probability'' = PNone)))
        \<longrightarrow> summary rp data = Some (PStr ''N/A''))
   \<and> summary rp [(''prediction'',
                    PDict [(''risk'', PStr ''Medium''), (''probability'', PFloat 0.5)])]
       = Some (PStr (''Risk: Medium (probability '' @ rp (PFloat 0.5) @ '')''))
   \<and> (build_pdf parses rp ts (PDict data) = Some els
        \<longrightarrow> (\<exists>t. summary rp data = Some t \<and> parses t \<and> last els = Paragraph t ''Normal''))
   \<and> (summary rp data = Some t \<and> \<not> parses t
        \<longrightarrow> build_pdf parses rp ts (PDict data) = None)
   \<and> (user_block rp (dict_get data ''user'') = Some ul
        \<and> readings_table rp (dict_get data ''readings'') = Some tb
        \<and> summary rp data = Some t
        \<and> parses (PStr ''HealTrack Health Report'') \<and> parses (PStr (''Generated: '' @ ts))
        \<and> parses (PStr ''User Details'') \<and> list_all (\<lambda>line. parses (PStr line)) ul
        \<and> parses (PStr ''Last 5 Health Readings'') \<and> parses (PStr ''AI Prediction Summary'')
        \<and> parses t
        \<longrightarrow> (\<exists>body. build_pdf parses rp ts (PDict data) = Some (body @ [Paragraph t ''Normal''])))"
proof (intro conjI impI)
  assume "dict_get data ''ai_summary'' = PStr s \<and> s \<noteq> []"
  then show "summary rp data = Some (PStr s)" by (simp add: summary_supplied)
next
  assume "\<not> truthy (dict_get data ''ai_summary'')
        \<and> dict_get data ''prediction'' = PDict pd
        \<and> dict_get pd ''risk'' \<noteq> PNone \<and> dict_get pd ''probability'' \<noteq> PNone"
  then show "summary rp data =
              Some (PStr (''Risk: '' @ py_str rp (dict_get pd ''risk'') @ '' (probability ''
                          @ py_str rp (dict_get pd ''probability'') @ '')''))"
    by (simp add: summary_synthesized)
next
  assume "\<not> truthy (dict_get data ''ai_summary'')
        \<and> (\<not> truthy (dict_get data ''prediction'')
            \<or> (dict_get data ''prediction'' = PDict pd
                \<and> (dict_get pd ''risk'' = PNone \<or> dict_get pd ''probability'' = PNone)))"
  then show "summary rp data = Some (PStr ''N/A'')"
    using summary_placeholder [of data pd rp] by blast
next
  show "summary rp [(''prediction'',
                    PDict [(''risk'', PStr ''Medium''), (''probability'', PFloat 0.5)])]
       = Some (PStr (''Risk: Medium (probability '' @ rp (PFloat 0.5) @ '')''))"
    by (simp add: summary_def dict_get_def)
next
  assume "build_pdf parses rp ts (PDict data) = Some els"
  then obtain ul t s where "summary rp data = Some s" and "parses s"
    and "els = [Paragraph (PStr ''HealTrack Health Report'') ''Title'', Spacer 1 12,
                      Paragraph (PStr (''Generated: '' @ ts)) ''Normal'', Spacer 1 12,
                      Paragraph (PStr ''User Details'') ''Heading2'']
                     @ map (\<lambda>line. Paragraph (PStr line) ''Normal'') ul
                     @ [Spacer 1 12,
                        Paragraph (PStr ''Last 5 Health Readings'') ''Heading2'',
                        Table t, Spacer 1 12,
                        Paragraph (PStr ''AI Prediction Summary'') ''Heading2'',
                        Paragraph s ''Normal'']"
    using build_pdf_parts by blast
  then show "\<exists>t. summary rp data = Some t \<and> parses t \<and> last els = Paragraph t ''Normal''"
    by simp
next
  assume h: "summary rp data = Some t \<and> \<not> parses t"
  show "build_pdf parses rp ts (PDict data) = None"
  proof (cases "build_pdf parses rp ts (PDict data)")
    case None
    then show ?thesis .
  next
    case (Some els)
    then obtain s where "summary rp data = Some s" and "parses s"
      using build_pdf_parts by blast
    with h show ?thesis by simp
  qed
next
  assume h: "user_block rp (dict_get data ''user'') = Some ul
        \<and> readings_table rp (dict_get data ''readings'') = Some tb
        \<and> summary rp data = Some t
        \<and> parses (PStr ''HealTrack Health Report'') \<and> parses (PStr (''Generated: '' @ ts))
        \<and> parses (PStr ''User Details'') \<and> list_all (\<lambda>line. parses (PStr line)) ul
        \<and> parses (PStr ''Last 5 Health Readings'') \<and> parses (PStr ''AI Prediction Summary'')
        \<and> parses t"
  then have u: "user_block rp (dict_get data ''user'') = Some ul"
    and r: "readings_table rp (dict_get data ''readings'') = Some tb"
    and s: "summary rp data = Some t" by simp_all
  let ?body = "[Paragraph (PStr ''HealTrack Health Report'') ''Title'', Spacer 1 12,
                  Paragraph (PStr (''Generated: '' @ ts)) ''Normal'', Spacer 1 12,
                  Paragraph (PStr ''User Details'') ''Heading2'']
                 @ map (\<lambda>line. Paragraph (PStr line) ''Normal'') ul
                 @ [Spacer 1 12,
                    Paragraph (PStr ''Last 5 Health Readings'') ''Heading2'',
                    Table tb, Spacer 1 12,
                    Paragraph (PStr ''AI Prediction Summary'') ''Heading2'']"
  have "build_pdf parses rp ts (PDict data) = Some (?body @ [Paragraph t ''Normal''])"
    unfolding build_pdf_dict [OF u r s] using h by simp
  then show "\<exists>body. build_pdf parses rp ts (PDict data) = Some (body @ [Paragraph t ''Normal''])"
    by blast
qed

theorem summary_paragraph_witness:
  "dict_get [(''ai_summary'', PStr ''Stable'')] ''ai_summary'' = PStr ''Stable''
   \<and> summary (fixed_repr ''0.5'') [(''ai_summary'', PStr ''Stable'')] = Some (PStr ''Stable'')
   \<and> summary (fixed_repr ''0.5'')
        [(''prediction'', PDict [(''risk'', PStr ''Medium''), (''probability'', PFloat 0.5)])]
      = Some (PStr ''Risk: Medium (probability 0.5)'')
   \<and> summary (fixed_repr ''0.5'') [(''prediction'', PDict [(''risk'', PStr ''Medium'')])]
      = Some (PStr ''N/A'')
   \<and> build_pdf (parses_except (PStr ''<b>bold'')) (fixed_repr ''0.5'') ''2024-01-01 00:00 UTC''
        (PDict [(''ai_summary'', PStr ''Stable'')])
      = Some [Paragraph (PStr ''HealTrack Health Report'') ''Title'', Spacer 1 12,
              Paragraph (PStr ''Generated: 2024-01-01 00:00 UTC'') ''Normal'', Spacer 1 12,
              Paragraph (PStr ''User Details'') ''Heading2'',
              Paragraph (PStr ''No user details provided'') ''Normal'', Spacer 1 12,
              Paragraph (PStr ''Last 5 Health Readings'') ''Heading2'',
              Table [table_header], Spacer 1 12,
              Paragraph (PStr ''AI Prediction Summary'') ''Heading2'',
              Paragraph (PStr ''Stable'') ''Normal'']
   \<and> summary (fixed_repr ''0.5'') [(''ai_summary'', PStr ''<b>bold'')] = Some (PStr ''<b>bold'')
   \<and> \<not> parses_except (PStr ''<b>bold'') (PStr ''<b>bold'')
   \<and> build_pdf (parses_except (PStr ''<b>bold'')) (fixed_repr ''0.5'') ''2024-01-01 00:00 UTC''
        (PDict [(''ai_summary'', PStr ''<b>bold'')]) = None"
proof -
  let ?p = "parses_except (PStr ''<b>bold'')"
  let ?rp = "fixed_repr ''0.5''"
  let ?ts = "''2024-01-01 00:00 UTC''"
  let ?d1 = "[(''ai_summary'', PStr ''Stable'')]"
  let ?d2 = "[(''prediction'', PDict [(''risk'', PStr ''Medium''), (''probability'', PFloat 0.5)])]"
  let ?d3 = "[(''prediction'', PDict [(''risk'', PStr ''Medium'')])]"
  let ?d4 = "[(''ai_summary'', PStr ''<b>bold'')]"
  have g1: "dict_get ?d1 ''ai_summary'' = PStr ''Stable''" by (simp add: dict_get_def)
  have s1: "summary ?rp ?d1 = Some (PStr ''Stable'')"
    using summary_paragraph [where data = ?d1 and s = "''Stable''" and rp = ?rp, THEN conjunct1] g1
    by simp
  have s2: "summary ?rp ?d2 = Some (PStr ''Risk: Medium (probability 0.5)'')"
    using summary_paragraph [where rp = ?rp, THEN conjunct2, THEN conjunct2, THEN conjunct2,
        THEN conjunct1]
    by (simp add: fixed_repr_def)
  have s3: "summary ?rp ?d3 = Some (PStr ''N/A'')"
    using summary_paragraph [where data = ?d3 and rp = ?rp and pd = "[(''risk'', PStr ''Medium'')]",
        THEN conjunct2, THEN conjunct2, THEN conjunct1]
    by (simp add: dict_get_def)
  have u1: "user_block ?rp (dict_get ?d1 ''user'') = Some [''No user details provided'']"
    by (simp add: user_block_def dict_get_def)
  have r1: "readings_table ?rp (dict_get ?d1 ''readings'') = Some [table_header]"
    by (simp add: readings_table_def dict_get_def)
  have b1: "build_pdf ?p ?rp ?ts (PDict ?d1)
      = Some [Paragraph (PStr ''HealTrack Health Report'') ''Title'', Spacer 1 12,
              Paragraph (PStr ''Generated: 2024-01-01 00:00 UTC'') ''Normal'', Spacer 1 12,
              Paragraph (PStr ''User Details'') ''Heading2'',
              Paragraph (PStr ''No user details provided'') ''Normal'', Spacer 1 12,
              Paragraph (PStr ''Last 5 Health Readings'') ''Heading2'',
              Table [table_header], Spacer 1 12,
              Paragraph (PStr ''AI Prediction Summary'') ''Heading2'',
              Paragraph (PStr ''Stable'') ''Normal'']"
    unfolding build_pdf_dict [OF u1 r1 s1] by (simp add: parses_except_def)
  have s4: "summary ?rp ?d4 = Some (PStr ''<b>bold'')"
    by (simp add: summary_def dict_get_def)
  have n4: "\<not> ?p (PStr ''<b>bold'')" by (simp add: parses_except_def)
  have b4: "build_pdf ?p ?rp ?ts (PDict ?d4) = None"
    using summary_paragraph [where data = ?d4 and rp = ?rp and parses = ?p
        and t = "PStr ''<b>bold''" and ts = ?ts,
        THEN conjunct2, THEN conjunct2, THEN conjunct2, THEN conjunct2, THEN conjunct2,
        THEN conjunct1] s4 n4
    by blast
  from g1 s1 s2 s3 b1 s4 n4 b4 show ?thesis by blast
qed

section \<open>The readings table\<close>





section \<open>The glucose column\<close>

lemma row_cells_glucose: "row_cells rp ((''glucose'', v) # d) = row_cells rp d"
  by (simp add: row_cells_def dict_get_default_def)

lemma row_cells_fifth:
  "row_cells rp d ! 4 = (case map_of d ''sugar'' of None \<Rightarrow> [] | Some v \<Rightarrow> py_str rp v)"
  by (simp add: row_cells_def dict_get_default_def split: option.splits)

text \<open>
  C10: the fifth column of the table is headed Glucose, and its cell in every row is
  \<open>str\<close> of the value under the reading's key 'sugar', the empty string when the
  reading has no such key; a value under the key 'glucose' changes no cell of the row.
\<close>

theorem glucose_column:
  "table_header ! 4 = ''Glucose''
   \<and> row_cells rp d ! 4 = (case map_of d ''sugar'' of None \<Rightarrow> [] | Some v \<Rightarrow> py_str rp v)
   \<and> row_cells rp ((''glucose'', v) # d) = row_cells rp d
   \<and> row_cells rp [(''glucose'', v)] ! 4 = []
   \<and> (i < min 5 (length ds) \<longrightarrow>
        (\<exists>t. readings_table rp (PList (map PDict ds)) = Some t
           \<and> t ! 0 ! 4 = ''Glucose''
           \<and> t ! Suc i ! 4
               = (case map_of (ds ! i) ''sugar'' of None \<Rightarrow> [] | Some v \<Rightarrow> py_str rp v)))"
proof (intro conjI impI)
  show "table_header ! 4 = ''Glucose''" by (simp add: table_header_def)
next
  show "row_cells rp d ! 4 = (case map_of d ''sugar'' of None \<Rightarrow> [] | Some v \<Rightarrow> py_str rp v)"
    by (rule row_cells_fifth)
next
  show "row_cells rp ((''glucose'', v) # d) = row_cells rp d" by (rule row_cells_glucose)
next
  show "row_cells rp [(''glucose'', v)] ! 4 = []"
    by (simp add: row_cells_fifth)
next
  assume i: "i < min 5 (length ds)"
  let ?t = "table_header # map (row_cells rp) (take 5 ds)"
  have "?t ! Suc i ! 4 = row_cells rp (ds ! i) ! 4" using i by simp
  then have "?t ! Suc i ! 4
               = (case map_of (ds ! i) ''sugar'' of None \<Rightarrow> [] | Some v \<Rightarrow> py_str rp v)"
    by (simp only: row_cells_fifth)
  moreover have "?t ! 0 ! 4 = ''Glucose''" by (simp add: table_header_def)
  ultimately show "\<exists>t. readings_table rp (PList (map PDict ds)) = Some t
           \<and> t ! 0 ! 4 = ''Glucose''
           \<and> t ! Suc i ! 4
               = (case map_of (ds ! i) ''sugar'' of None \<Rightarrow> [] | Some v \<Rightarrow> py_str rp v)"
    unfolding readings_table_dicts by blast
qed

theorem glucose_column_witness:
  "(1::nat) < min 5 (length [[(''date'', PStr ''d1''), (''sugar'', PInt 95)],
                             [(''date'', PStr ''d2''), (''glucose'', PInt 140)]])
   \<and> readings_table (fixed_repr ''0.5'')
        (PList (map PDict [[(''date'', PStr ''d1''), (''sugar'', PInt 95)],
                           [(''date'', PStr ''d2''), (''glucose'', PInt 140)]]))
      = Some [[''Date'', ''Systolic'', ''Diastolic'', ''Heart Rate'', ''Glucose'', ''BMI''],
              [''d1'', [], [], [], ''95'', []],
              [''d2'', [], [], [], [], []]]
   \<and> (\<exists>t. readings_table (fixed_repr ''0.5'')
               (PList (map PDict [[(''date'', PStr ''d1''), (''sugar'', PInt 95)],
                                  [(''date'', PStr ''d2''), (''glucose'', PInt 140)]])) = Some t
          \<and> t ! 0 ! 4 = ''Glucose'' \<and> t ! Suc 1 ! 4 = [])"
proof -
  let ?ds = "[[(''date'', PStr ''d1''), (''sugar'', PInt 95)],
              [(''date'', PStr ''d2''), (''glucose'', PInt 140)]]"
  have t: "readings_table (fixed_repr ''0.5'') (PList (map PDict ?ds))
      = Some [[''Date'', ''Systolic'', ''Diastolic'', ''Heart Rate'', ''Glucose'', ''BMI''],
              [''d1'', [], [], [], ''95'', []],
              [''d2'', [], [], [], [], []]]"
    by (simp add: readings_table_def reading_row_def row_cells_def dict_get_default_def
        table_header_def str_int_def)
  have i: "(1::nat) < min 5 (length ?ds)" by simp
  have m: "map_of (?ds ! 1) ''sugar'' = None" by simp
  show ?thesis
    using t i m glucose_column [of "fixed_repr ''0.5''" "[]" PNone 1 ?ds]
    by simp
qed

end
